theory Spec2Isabelle
  imports Main "HOL-Library.AList"
begin

section \<open>Values\<close>

text \<open>
  The value that \<^verbatim>\<open>await request.json()\<close> returns: Python's rendering of a JSON
  document. An object is a \<^verbatim>\<open>dict\<close> with string keys, kept as an association list
  whose keys are distinct, as the keys of a dict are. No arithmetic is done on a
  number anywhere in the server, so a float is carried as its \<^verbatim>\<open>repr\<close>, which is
  \<open>nan\<close>, \<open>inf\<close> or \<open>-inf\<close> for the three floats that are not finite (Python's
  parser reads them from \<open>NaN\<close>, \<open>Infinity\<close> and \<open>-Infinity\<close>, and the
  infinities from a literal too large for a float as well).
\<close>

datatype json =
    JNull
  | JBool bool
  | JInt int
  | JFloat string
  | JStr string
  | JArr "json list"
  | JObj "(string \<times> json) list"

text \<open>
  Exceptions. The handlers tell \<^verbatim>\<open>json.JSONDecodeError\<close> from every other
  \<^verbatim>\<open>Exception\<close>, so the class is kept; \<^verbatim>\<open>str(e)\<close> is the message.
\<close>

datatype exn_class = JSONDecodeError | AttributeError | OtherError

datatype exn = Exn exn_class string

fun exn_class_of :: "exn \<Rightarrow> exn_class" where
  "exn_class_of (Exn c m) = c"

fun str_exn :: "exn \<Rightarrow> string" where
  "str_exn (Exn c m) = m"

text \<open>\<^verbatim>\<open>type(v).__name__\<close>, as it appears in the message of an AttributeError.\<close>

fun type_name :: "json \<Rightarrow> string" where
  "type_name JNull = ''NoneType''"
| "type_name (JBool b) = ''bool''"
| "type_name (JInt i) = ''int''"
| "type_name (JFloat f) = ''float''"
| "type_name (JStr s) = ''str''"
| "type_name (JArr xs) = ''list''"
| "type_name (JObj kvs) = ''dict''"

definition no_attribute :: "json \<Rightarrow> string \<Rightarrow> exn" where
  "no_attribute v a =
     Exn AttributeError ([CHR 0x27] @ type_name v @ [CHR 0x27] @ '' object has no attribute ''
       @ [CHR 0x27] @ a @ [CHR 0x27])"

text \<open>
  \<^verbatim>\<open>v.get(key, default)\<close>: defined on a dict only; on every other value the
  attribute lookup raises.
\<close>

definition py_get :: "json \<Rightarrow> string \<Rightarrow> json \<Rightarrow> exn + json" where
  "py_get v key dflt =
     (case v of
        JObj kvs \<Rightarrow> (case map_of kvs key of None \<Rightarrow> Inr dflt | Some x \<Rightarrow> Inr x)
      | _ \<Rightarrow> Inl (no_attribute v ''get''))"


section \<open>Strings\<close>

text \<open>
  A \<^verbatim>\<open>str\<close> is the list of its code points, and the model carries the strings
  whose code points are below 256. \<^verbatim>\<open>str.upper\<close> maps each code point on its own;
  in this range the result may leave the range (U+00B5 gives U+039C, U+00FF gives U+0178)
  or have two code points (U+00DF gives SS), so an upper-cased string is a list of code
  points as numbers. \<^verbatim>\<open>str.strip\<close> removes from both ends the code points for which
  \<^verbatim>\<open>str.isspace\<close> holds: in this range the tab, line feed, vertical tab, form feed
  and carriage return, the separators 0x1C to 0x1F, the blank, U+0085 and U+00A0.
\<close>

definition code_points :: "string \<Rightarrow> nat list" where
  "code_points s = map of_char s"

definition upper_char :: "char \<Rightarrow> nat list" where
  "upper_char c =
     (let n = of_char c in
      if 0x61 \<le> n \<and> n \<le> 0x7A then [n - 0x20]
      else if n = 0xB5 then [0x39C]
      else if n = 0xDF then [0x53, 0x53]
      else if 0xE0 \<le> n \<and> n \<le> 0xFE \<and> n \<noteq> 0xF7 then [n - 0x20]
      else if n = 0xFF then [0x178]
      else [n])"

definition upper :: "string \<Rightarrow> nat list" where
  "upper s = concat (map upper_char s)"

definition is_space :: "char \<Rightarrow> bool" where
  "is_space c = (c \<in> set [CHR 0x09, CHR 0x0A, CHR 0x0B, CHR 0x0C, CHR 0x0D,
                           CHR 0x1C, CHR 0x1D, CHR 0x1E, CHR 0x1F, CHR 0x20,
                           CHR 0x85, CHR 0xA0])"

definition strip :: "string \<Rightarrow> string" where
  "strip s = rev (dropWhile is_space (rev (dropWhile is_space s)))"

text \<open>\<^verbatim>\<open>s.startswith(p)\<close>, and \<^verbatim>\<open>s.startswith((p1, ..., pn))\<close> with a tuple.\<close>

definition startswith :: "'a list \<Rightarrow> 'a list \<Rightarrow> bool" where
  "startswith s p = (take (length p) s = p)"

definition startswith_any :: "'a list \<Rightarrow> 'a list list \<Rightarrow> bool" where
  "startswith_any s ps = list_ex (startswith s) ps"

text \<open>The decimal text of an integer, as an f-string prints it.\<close>

function string_of_nat :: "nat \<Rightarrow> string" where
  "string_of_nat n =
     (if n < 10 then [''0123456789'' ! n]
      else string_of_nat (n div 10) @ [''0123456789'' ! (n mod 10)])"
  by pat_completeness auto
termination
  by (relation "measure id") auto

declare string_of_nat.simps [simp del]

definition string_of_int :: "int \<Rightarrow> string" where
  "string_of_int i = (if i < 0 then ''-'' @ string_of_nat (nat (- i)) else string_of_nat (nat i))"

definition nl :: string where
  "nl = [CHR 0x0A]"

definition spaces :: "nat \<Rightarrow> string" where
  "spaces n = replicate n (CHR 0x20)"

section \<open>The database driver\<close>

text \<open>
  psycopg2 is not part of the repository. One run of \<^verbatim>\<open>execute_query\<close> opens one
  connection and makes a fixed sequence of driver calls on it; a session gives the
  outcome of each of these calls (\<open>None\<close>: the call returns, \<open>Some e\<close>: it raises
  \<open>e\<close>). \<open>description\<close> holds the column names of \<^verbatim>\<open>cursor.description\<close>
  (\<open>None\<close> for a statement without a result set), \<open>fetchall\<close> the row tuples.
\<close>

record 'v session =
  connect :: "exn option"
  cursor :: "exn option"
  execute :: "exn option"
  description :: "string list option"
  fetchall :: "exn + 'v list list"
  commit :: "exn option"
  rowcount :: int
  rollback :: "exn option"
  cursor_close :: "exn option"
  conn_close :: "exn option"

text \<open>The driver calls a run makes, in order, with the statement it sent.\<close>

datatype db_op =
    Connect
  | Cursor
  | Execute json
  | Fetchall
  | Commit
  | Rollback
  | CursorClose
  | ConnClose

text \<open>
  The dict \<^verbatim>\<open>execute_query\<close> returns, with its keys in insertion order. The values
  of a row are the driver's (dates, decimals, ...), of any type \<open>'v\<close>.
\<close>

datatype 'v pyval =
    PBool bool
  | PInt int
  | PStr string
  | PRows "(string \<times> 'v) list list"

type_synonym 'v tool_result = "(string \<times> 'v pyval) list"

text \<open>
  \<^verbatim>\<open>dict(pairs)\<close>: a later pair with a key already present replaces the value and
  keeps the key's place.
\<close>

definition dict :: "(string \<times> 'v) list \<Rightarrow> (string \<times> 'v) list" where
  "dict kvs = foldl (\<lambda>d (k, v). AList.update k v d) [] kvs"

definition has_key :: "(string \<times> 'a) list \<Rightarrow> string \<Rightarrow> bool" where
  "has_key d k = (k \<in> set (map fst d))"

section \<open>execute_query\<close>

definition READ_KEYWORDS :: "string list" where
  "READ_KEYWORDS = [''SELECT'', ''WITH'', ''SHOW'', ''DESCRIBE'']"

text \<open>
  The test of line 108. It is reached after the statement has been sent, and
  \<^verbatim>\<open>query.strip()\<close> exists on a \<^verbatim>\<open>str\<close> only.
\<close>

definition read_like :: "string \<Rightarrow> bool" where
  "read_like q = startswith_any (upper (strip q)) (map code_points READ_KEYWORDS)"

definition read_success :: "(string \<times> 'v) list list \<Rightarrow> 'v tool_result" where
  "read_success result =
     [(''success'', PBool True), (''data'', PRows result),
      (''row_count'', PInt (int (length result)))]"

definition write_success :: "int \<Rightarrow> 'v tool_result" where
  "write_success n =
     [(''success'', PBool True),
      (''message'', PStr (''Query executed successfully. Rows affected: '' @ string_of_int n)),
      (''affected_rows'', PInt n)]"

definition failure :: "string \<Rightarrow> 'v tool_result" where
  "failure msg = [(''success'', PBool False), (''error'', PStr msg)]"

text \<open>
  The body of the \<^verbatim>\<open>try\<close> (lines 103 to 121): the calls made and either the
  exception that left the body or the dict it returned.
\<close>

definition try_body :: "'v session \<Rightarrow> json \<Rightarrow> db_op list \<times> (exn + 'v tool_result)" where
  "try_body s query =
     (case connect s of
        Some e \<Rightarrow> ([Connect], Inl e)
      | None \<Rightarrow>
     (case cursor s of
        Some e \<Rightarrow> ([Connect, Cursor], Inl e)
      | None \<Rightarrow>
     (case execute s of
        Some e \<Rightarrow> ([Connect, Cursor, Execute query], Inl e)
      | None \<Rightarrow>
     (case query of
        JStr q \<Rightarrow>
          if read_like q then
            (let columns = (case description s of
                              None \<Rightarrow> []
                            | Some d \<Rightarrow> if d \<noteq> [] then d else [])
             in case fetchall s of
                  Inl e \<Rightarrow> ([Connect, Cursor, Execute query, Fetchall], Inl e)
                | Inr rows \<Rightarrow>
                    (let result = map (\<lambda>row. dict (zip columns row)) rows
                     in ([Connect, Cursor, Execute query, Fetchall], Inr (read_success result))))
          else
            (case commit s of
               Some e \<Rightarrow> ([Connect, Cursor, Execute query, Commit], Inl e)
             | None \<Rightarrow>
                 ([Connect, Cursor, Execute query, Commit], Inr (write_success (rowcount s))))
      | _ \<Rightarrow> ([Connect, Cursor, Execute query], Inl (no_attribute query ''strip''))))))"

text \<open>
  The \<^verbatim>\<open>except Exception\<close> clause (lines 122 to 126): \<^verbatim>\<open>conn\<close> is set once
  \<^verbatim>\<open>get_db_connection\<close> has returned, and the rollback is a driver call like the
  others, made inside the handler, where nothing catches what it raises.
\<close>

definition except_clause ::
  "'v session \<Rightarrow> db_op list \<times> (exn + 'v tool_result) \<Rightarrow> db_op list \<times> (exn + 'v tool_result)" where
  "except_clause s r =
     (case r of
        (t, Inr res) \<Rightarrow> (t, Inr res)
      | (t, Inl e) \<Rightarrow>
          if connect s = None then
            (case rollback s of
               Some e2 \<Rightarrow> (t @ [Rollback], Inl e2)
             | None \<Rightarrow> (t @ [Rollback], Inr (failure (str_exn e))))
          else (t, Inr (failure (str_exn e))))"

text \<open>
  The \<^verbatim>\<open>finally\<close> clause (lines 127 to 131): \<^verbatim>\<open>cursor\<close> is set once
  \<^verbatim>\<open>conn.cursor()\<close> has returned. An exception raised here replaces the value
  being returned or the exception under way, and one raised by \<^verbatim>\<open>cursor.close()\<close>
  skips \<^verbatim>\<open>conn.close()\<close>.
\<close>

definition finally_clause ::
  "'v session \<Rightarrow> db_op list \<times> (exn + 'v tool_result) \<Rightarrow> db_op list \<times> (exn + 'v tool_result)" where
  "finally_clause s r =
     (case r of (t, out) \<Rightarrow>
        if connect s = None \<and> cursor s = None then
          (case cursor_close s of
             Some e \<Rightarrow> (t @ [CursorClose], Inl e)
           | None \<Rightarrow>
               (case conn_close s of
                  Some e \<Rightarrow> (t @ [CursorClose, ConnClose], Inl e)
                | None \<Rightarrow> (t @ [CursorClose, ConnClose], out)))
        else if connect s = None then
          (case conn_close s of
             Some e \<Rightarrow> (t @ [ConnClose], Inl e)
           | None \<Rightarrow> (t @ [ConnClose], out))
        else (t, out))"

definition execute_query :: "'v session \<Rightarrow> json \<Rightarrow> db_op list \<times> (exn + 'v tool_result)" where
  "execute_query s query = finally_clause s (except_clause s (try_body s query))"

section \<open>The tool catalog\<close>

definition MCP_TOOLS :: json where
  "MCP_TOOLS = JArr [
     JObj [(''name'', JStr ''postgres_query''),
           (''description'', JStr ''Execute a SQL query on the PostgreSQL database. Use this to SELECT, INSERT, UPDATE, or DELETE data.''),
           (''inputSchema'', JObj [
              (''type'', JStr ''object''),
              (''properties'', JObj [
                 (''query'', JObj [
                    (''type'', JStr ''string''),
                    (''description'', JStr (''The SQL query to execute (e.g., SELECT * FROM employees WHERE department=''
                        @ [CHR 0x27] @ ''Engineering'' @ [CHR 0x27] @ '')''))])]),
              (''required'', JArr [JStr ''query''])])],
     JObj [(''name'', JStr ''postgres_list_tables''),
           (''description'', JStr ''List all tables in the current PostgreSQL database''),
           (''inputSchema'', JObj [
              (''type'', JStr ''object''),
              (''properties'', JObj []),
              (''required'', JArr [])])],
     JObj [(''name'', JStr ''postgres_describe_table''),
           (''description'', JStr ''Get the schema/structure of a specific table including column names and types''),
           (''inputSchema'', JObj [
              (''type'', JStr ''object''),
              (''properties'', JObj [
                 (''table_name'', JObj [
                    (''type'', JStr ''string''),
                    (''description'', JStr ''Name of the table to describe'')])]),
              (''required'', JArr [JStr ''table_name''])])]]"

section \<open>The environment of a request\<close>

text \<open>
  What a request meets outside the repository: the database (\<open>db q\<close> is the session
  met by the run that sends \<open>q\<close>), Python's \<^verbatim>\<open>str()\<close> of a value that is not a
  \<^verbatim>\<open>str\<close> (an f-string prints a \<^verbatim>\<open>str\<close> as it is), \<^verbatim>\<open>json.dumps(v)\<close>,
  \<^verbatim>\<open>json.dumps(result, default=str, indent=2)\<close> on the dict of a tool, and the
  message of the \<^verbatim>\<open>ValueError\<close> that Starlette's \<^verbatim>\<open>JSONResponse\<close> raises on a
  content it cannot render.
\<close>

record 'v env =
  db :: "json \<Rightarrow> 'v session"
  py_str :: "json \<Rightarrow> string"
  json_dumps :: "json \<Rightarrow> string"
  json_dumps_result :: "'v tool_result \<Rightarrow> string"
  render_error :: "json \<Rightarrow> string"

definition format_value :: "'v env \<Rightarrow> json \<Rightarrow> string" where
  "format_value env v = (case v of JStr s \<Rightarrow> s | _ \<Rightarrow> py_str env v)"

definition run_query :: "'v env \<Rightarrow> json \<Rightarrow> db_op list \<times> (exn + 'v tool_result)" where
  "run_query env query = execute_query (db env query) query"

section \<open>Tool dispatch\<close>

definition LIST_TABLES_SQL :: string where
  "LIST_TABLES_SQL = ''SELECT table_name FROM information_schema.tables WHERE table_schema=''
     @ [CHR 0x27] @ ''public'' @ [CHR 0x27] @ '' ORDER BY table_name''"

text \<open>The triple-quoted f-string of lines 266 to 271, line breaks and indentation included.\<close>

definition describe_sql_sse :: "string \<Rightarrow> string" where
  "describe_sql_sse table_name =
     nl @ spaces 36 @ ''SELECT column_name, data_type, is_nullable, column_default''
     @ nl @ spaces 36 @ ''FROM information_schema.columns''
     @ nl @ spaces 36 @ ''WHERE table_name = '' @ [CHR 0x27] @ table_name @ [CHR 0x27]
     @ nl @ spaces 36 @ ''ORDER BY ordinal_position''
     @ nl @ spaces 32"

text \<open>The f-string of line 420.\<close>

definition describe_sql_http :: "string \<Rightarrow> string" where
  "describe_sql_http table_name =
     ''SELECT column_name, data_type, is_nullable FROM information_schema.columns WHERE table_name = ''
     @ [CHR 0x27] @ table_name @ [CHR 0x27] @ '' ORDER BY ordinal_position''"

text \<open>
  Lines 254 to 279 (streamed) and 411 to 426 (unary): the tool is chosen by name, and the
  two transports differ in the statement that describes a table.
\<close>

definition call_tool ::
  "(string \<Rightarrow> string) \<Rightarrow> 'v env \<Rightarrow> json \<Rightarrow> db_op list \<times> (exn + 'v tool_result)" where
  "call_tool describe_sql env params =
     (case py_get params ''name'' (JStr '''') of
        Inl e \<Rightarrow> ([], Inl e)
      | Inr tool_name \<Rightarrow>
     (case py_get params ''arguments'' (JObj []) of
        Inl e \<Rightarrow> ([], Inl e)
      | Inr arguments \<Rightarrow>
          if tool_name = JStr ''postgres_list_tables'' then
            run_query env (JStr LIST_TABLES_SQL)
          else if tool_name = JStr ''postgres_describe_table'' then
            (case py_get arguments ''table_name'' (JStr '''') of
               Inl e \<Rightarrow> ([], Inl e)
             | Inr table_name \<Rightarrow>
                 run_query env (JStr (describe_sql (format_value env table_name))))
          else if tool_name = JStr ''postgres_query'' then
            (case py_get arguments ''query'' (JStr '''') of
               Inl e \<Rightarrow> ([], Inl e)
             | Inr query \<Rightarrow> run_query env query)
          else ([], Inr (failure (''Unknown tool: '' @ format_value env tool_name)))))"

definition call_tool_sse :: "'v env \<Rightarrow> json \<Rightarrow> db_op list \<times> (exn + 'v tool_result)" where
  "call_tool_sse = call_tool describe_sql_sse"

definition call_tool_http :: "'v env \<Rightarrow> json \<Rightarrow> db_op list \<times> (exn + 'v tool_result)" where
  "call_tool_http = call_tool describe_sql_http"

section \<open>Envelopes\<close>

definition success_envelope :: "json \<Rightarrow> json \<Rightarrow> json" where
  "success_envelope msg_id result =
     JObj [(''jsonrpc'', JStr ''2.0''), (''id'', msg_id), (''result'', result)]"

definition tool_envelope :: "'v env \<Rightarrow> json \<Rightarrow> 'v tool_result \<Rightarrow> json" where
  "tool_envelope env msg_id result =
     success_envelope msg_id
       (JObj [(''content'',
          JArr [JObj [(''type'', JStr ''text''),
                      (''text'', JStr (json_dumps_result env result))]])])"

definition method_not_found :: "'v env \<Rightarrow> json \<Rightarrow> json \<Rightarrow> json" where
  "method_not_found env msg_id method =
     JObj [(''jsonrpc'', JStr ''2.0''), (''id'', msg_id),
           (''error'', JObj [(''code'', JInt (- 32601)),
                             (''message'', JStr (''Method not found: '' @ format_value env method))])]"

text \<open>The envelopes built without an id (lines 310, 343 and 443).\<close>

definition error_without_id :: "int \<Rightarrow> string \<Rightarrow> json" where
  "error_without_id code msg =
     JObj [(''jsonrpc'', JStr ''2.0''),
           (''error'', JObj [(''code'', JInt code), (''message'', JStr msg)])]"

definition SERVER_INFO :: json where
  "SERVER_INFO = JObj [(''name'', JStr ''PostgreSQL MCP Server''), (''version'', JStr ''1.0.0'')]"

definition initialize_result :: "json \<Rightarrow> json" where
  "initialize_result capabilities =
     JObj [(''protocolVersion'', JStr ''2024-11-05''),
           (''capabilities'', capabilities),
           (''serverInfo'', SERVER_INFO)]"

section \<open>The router on the two transports\<close>

text \<open>
  Lines 195 to 306, the streamed transport: the three reads of the body, then the chain
  of branches on the method. Each branch builds one envelope, which the generator yields
  as one frame; an exception leaves the chain for the handlers of the generator.
\<close>

definition rpc_sse :: "'v env \<Rightarrow> json \<Rightarrow> db_op list \<times> (exn + json)" where
  "rpc_sse env body =
     (case py_get body ''method'' (JStr '''') of
        Inl e \<Rightarrow> ([], Inl e)
      | Inr method \<Rightarrow>
     (case py_get body ''params'' (JObj []) of
        Inl e \<Rightarrow> ([], Inl e)
      | Inr params \<Rightarrow>
     (case py_get body ''id'' (JInt 1) of
        Inl e \<Rightarrow> ([], Inl e)
      | Inr msg_id \<Rightarrow>
          if method = JStr ''initialize'' then
            ([], Inr (success_envelope msg_id
                        (initialize_result (JObj [(''tools'', JObj [])]))))
          else if method = JStr ''tools/list'' then
            ([], Inr (success_envelope msg_id (JObj [(''tools'', MCP_TOOLS)])))
          else if method = JStr ''resources/list'' then
            ([], Inr (success_envelope msg_id (JObj [(''resources'', JArr [])])))
          else if method = JStr ''prompts/list'' then
            ([], Inr (success_envelope msg_id (JObj [(''prompts'', JArr [])])))
          else if method = JStr ''tools/call'' then
            (case call_tool_sse env params of
               (t, Inl e) \<Rightarrow> (t, Inl e)
             | (t, Inr result) \<Rightarrow> (t, Inr (tool_envelope env msg_id result)))
          else ([], Inr (method_not_found env msg_id method)))))"

text \<open>
  Lines 367 to 439, the unary transport: the same reads and a chain of five branches
  with no final \<^verbatim>\<open>else\<close>. \<open>Inr (Some j)\<close> is \<^verbatim>\<open>return JSONResponse(j)\<close>
  reached with the content \<open>j\<close>; \<open>Inr None\<close> is the end of the \<^verbatim>\<open>try\<close> block
  reached with no branch taken.
\<close>

definition rpc_http :: "'v env \<Rightarrow> json \<Rightarrow> db_op list \<times> (exn + json option)" where
  "rpc_http env body =
     (case py_get body ''method'' (JStr '''') of
        Inl e \<Rightarrow> ([], Inl e)
      | Inr method \<Rightarrow>
     (case py_get body ''params'' (JObj []) of
        Inl e \<Rightarrow> ([], Inl e)
      | Inr params \<Rightarrow>
     (case py_get body ''id'' (JInt 1) of
        Inl e \<Rightarrow> ([], Inl e)
      | Inr msg_id \<Rightarrow>
          if method = JStr ''initialize'' then
            ([], Inr (Some (success_envelope msg_id
                        (initialize_result
                           (JObj [(''tools'', JObj []), (''resources'', JObj []),
                                  (''prompts'', JObj [])])))))
          else if method = JStr ''tools/list'' then
            ([], Inr (Some (success_envelope msg_id (JObj [(''tools'', MCP_TOOLS)]))))
          else if method = JStr ''resources/list'' then
            ([], Inr (Some (success_envelope msg_id (JObj [(''resources'', JArr [])]))))
          else if method = JStr ''prompts/list'' then
            ([], Inr (Some (success_envelope msg_id (JObj [(''prompts'', JArr [])]))))
          else if method = JStr ''tools/call'' then
            (case call_tool_http env params of
               (t, Inl e) \<Rightarrow> (t, Inl e)
             | (t, Inr result) \<Rightarrow> (t, Inr (Some (tool_envelope env msg_id result))))
          else ([], Inr None))))"

section \<open>The endpoint\<close>

datatype http_method = GET | POST | OPTIONS

text \<open>
  A request as the endpoint reads it: the HTTP method, the \<^verbatim>\<open>accept\<close> header if
  there is one, and the outcome of \<^verbatim>\<open>await request.json()\<close>.
\<close>

record request =
  req_method :: http_method
  accept :: "string option"
  request_json :: "exn + json"

text \<open>What the generator does, in order: a frame written, or a pause in seconds.\<close>

datatype event = Yield string | Sleep nat

datatype response =
    Response nat "(string \<times> string) list"
  | StreamingResponse "event list" string "(string \<times> string) list"
  | JSONResponse json nat
  | NoneReturned

text \<open>\<^verbatim>\<open>p in s\<close> on strings.\<close>

fun is_substring :: "string \<Rightarrow> string \<Rightarrow> bool" where
  "is_substring p [] = (p = [])"
| "is_substring p (c # cs) = (startswith (c # cs) p \<or> is_substring p cs)"

definition sse_frame :: "'v env \<Rightarrow> json \<Rightarrow> string" where
  "sse_frame env j = ''data: '' @ json_dumps env j @ nl @ nl"

definition PING :: string where
  "PING = '': ping'' @ nl @ nl"

text \<open>The loop of lines 337 to 339, \<open>n\<close> rounds of it.\<close>

primrec ping_loop :: "nat \<Rightarrow> event list" where
  "ping_loop 0 = []"
| "ping_loop (Suc n) = [Sleep 1, Yield PING] @ ping_loop n"

definition CAPABILITIES :: json where
  "CAPABILITIES =
     JObj [(''jsonrpc'', JStr ''2.0''),
           (''result'', initialize_result (JObj [(''tools'', JObj [])]))]"

text \<open>
  Lines 188 to 350. Inside the inner \<^verbatim>\<open>try\<close> a JSONDecodeError, raised by the
  parse of the body or later, is answered by the frame of lines 310 to 317; every other
  exception reaches the outer handler of lines 341 to 350.
\<close>

definition sse_generator :: "'v env \<Rightarrow> request \<Rightarrow> db_op list \<times> event list" where
  "sse_generator env request =
     (if req_method request = POST then
        (case (case request_json request of
                 Inl e \<Rightarrow> ([], Inl e)
               | Inr body \<Rightarrow> rpc_sse env body) of
           (t, Inr response) \<Rightarrow> (t, [Yield (sse_frame env response)])
         | (t, Inl e) \<Rightarrow>
             if exn_class_of e = JSONDecodeError then
               (t, [Yield (sse_frame env (error_without_id (- 32700) ''Parse error: Invalid JSON''))])
             else
               (t, [Yield (sse_frame env
                      (error_without_id (- 32603) (''Internal error: '' @ str_exn e)))]))
      else ([], Yield (sse_frame env CAPABILITIES) # ping_loop 3))"

definition SSE_HEADERS :: "(string \<times> string) list" where
  "SSE_HEADERS = [(''Cache-Control'', ''no-cache''), (''Connection'', ''keep-alive''),
                  (''X-Accel-Buffering'', ''no''), (''Access-Control-Allow-Origin'', ''*'')]"

definition CORS_HEADERS :: "(string \<times> string) list" where
  "CORS_HEADERS = [(''Access-Control-Allow-Origin'', ''*''),
                   (''Access-Control-Allow-Methods'', ''*''),
                   (''Access-Control-Allow-Headers'', ''*'')]"

text \<open>
  \<^verbatim>\<open>JSONResponse(content)\<close> renders its content when it is built, with
  \<^verbatim>\<open>json.dumps(content, allow_nan=False, ...)\<close>: on a content that holds a float
  that is not finite the call raises \<^verbatim>\<open>ValueError\<close> instead of returning a
  response. (The rendered text is then encoded as UTF-8, which every string of the model
  allows.)
\<close>

fun out_of_range :: "json \<Rightarrow> bool" where
  "out_of_range (JFloat r) = (r \<in> set [''nan'', ''inf'', ''-inf''])"
| "out_of_range (JArr xs) = list_ex out_of_range xs"
| "out_of_range (JObj kvs) = list_ex out_of_range (map snd kvs)"
| "out_of_range v = False"

text \<open>
  Lines 165 to 449. The result is the driver calls made for the request and what the
  function returns; \<open>NoneReturned\<close> is the function ending without a
  \<^verbatim>\<open>return\<close>. On the unary transport the response of a branch is built inside the
  \<^verbatim>\<open>try\<close>, after the tool has run, so that the \<^verbatim>\<open>ValueError\<close> of a content
  that cannot be rendered is answered by the handler of lines 441 to 449 like every other
  exception. The content of that handler's own response holds no float.
\<close>

definition mcp_endpoint :: "'v env \<Rightarrow> request \<Rightarrow> db_op list \<times> response" where
  "mcp_endpoint env request =
     (if req_method request = OPTIONS then ([], Response 200 CORS_HEADERS)
      else
        (let accept_header = (case accept request of None \<Rightarrow> '''' | Some a \<Rightarrow> a);
             prefer_sse = (is_substring ''text/event-stream'' accept_header
                           \<or> req_method request = GET)
         in if prefer_sse then
              (case sse_generator env request of
                 (t, events) \<Rightarrow> (t, StreamingResponse events ''text/event-stream'' SSE_HEADERS))
            else
              (case (case request_json request of
                       Inl e \<Rightarrow> ([], Inl e)
                     | Inr body \<Rightarrow> rpc_http env body) of
                 (t, Inr (Some j)) \<Rightarrow>
                   if out_of_range j then
                     (t, JSONResponse (error_without_id (- 32603) (render_error env j)) 500)
                   else (t, JSONResponse j 200)
               | (t, Inr None) \<Rightarrow> (t, NoneReturned)
               | (t, Inl e) \<Rightarrow> (t, JSONResponse (error_without_id (- 32603) (str_exn e)) 500))))"

section \<open>The classification in the spec's words\<close>

text \<open>
  A statement begins with a keyword, case ignored, when each of its first characters is
  the capital or the small letter at that place of the keyword; \<open>trimmed white s\<close> is
  \<open>s\<close> without the characters of \<open>white\<close> at its two ends.
\<close>

fun begins_with_letters :: "(char \<times> char) list \<Rightarrow> string \<Rightarrow> bool" where
  "begins_with_letters [] s = True"
| "begins_with_letters (p # kw) [] = False"
| "begins_with_letters (p # kw) (c # s) = ((c = fst p \<or> c = snd p) \<and> begins_with_letters kw s)"

definition begins_with_keyword :: "string \<Rightarrow> string \<times> string \<Rightarrow> bool" where
  "begins_with_keyword s kw = begins_with_letters (zip (fst kw) (snd kw)) s"

definition trimmed :: "char list \<Rightarrow> string \<Rightarrow> string" where
  "trimmed white s =
     rev (dropWhile (\<lambda>c. c \<in> set white) (rev (dropWhile (\<lambda>c. c \<in> set white) s)))"

text \<open>
  A keyword as the proofs below read it: capital ASCII letters, each with its small
  letter, where an S is followed by a letter other than S.
\<close>

fun plain_keyword :: "(char \<times> char) list \<Rightarrow> bool" where
  "plain_keyword [] = True"
| "plain_keyword (p # kw) =
     (0x41 \<le> (of_char (fst p) :: nat) \<and> (of_char (fst p) :: nat) \<le> 0x5A
      \<and> (of_char (snd p) :: nat) = of_char (fst p) + 0x20
      \<and> (if fst p = CHR ''S'' then kw \<noteq> [] \<and> fst (hd kw) \<noteq> CHR ''S'' else True)
      \<and> plain_keyword kw)"

section \<open>Python's own serialisers\<close>

text \<open>
  What the parameters of an environment are in CPython, on the values of the model; the
  sample environments below use them. \<open>join sep xs\<close> is \<^verbatim>\<open>sep.join(xs)\<close>.
\<close>

fun join :: "string \<Rightarrow> string list \<Rightarrow> string" where
  "join sep [] = []"
| "join sep [x] = x"
| "join sep (x # y # ys) = x @ sep @ join sep (y # ys)"

definition hex_digit :: "nat \<Rightarrow> char" where
  "hex_digit n = ''0123456789abcdef'' ! n"

text \<open>
  A string in the output of \<^verbatim>\<open>json.dumps\<close>, which escapes the quotation mark, the
  backslash and every code point outside the printable ASCII range.
\<close>

definition json_char :: "char \<Rightarrow> string" where
  "json_char c =
     (let n = of_char c :: nat in
      if c = CHR 0x22 then [CHR 0x5C, CHR 0x22]
      else if c = CHR 0x5C then [CHR 0x5C, CHR 0x5C]
      else if c = CHR 0x0A then [CHR 0x5C, CHR ''n'']
      else if c = CHR 0x0D then [CHR 0x5C, CHR ''r'']
      else if c = CHR 0x09 then [CHR 0x5C, CHR ''t'']
      else if c = CHR 0x08 then [CHR 0x5C, CHR ''b'']
      else if c = CHR 0x0C then [CHR 0x5C, CHR ''f'']
      else if 0x20 \<le> n \<and> n \<le> 0x7E then [c]
      else [CHR 0x5C, CHR ''u'', CHR ''0'', CHR ''0'', hex_digit (n div 16), hex_digit (n mod 16)])"

definition json_string :: "string \<Rightarrow> string" where
  "json_string s = [CHR 0x22] @ concat (map json_char s) @ [CHR 0x22]"

text \<open>\<^verbatim>\<open>json.dumps(v)\<close> with its default separators.\<close>

fun dumps :: "json \<Rightarrow> string" where
  "dumps JNull = ''null''"
| "dumps (JBool b) = (if b then ''true'' else ''false'')"
| "dumps (JInt i) = string_of_int i"
| "dumps (JFloat r) =
     (if r = ''nan'' then ''NaN'' else if r = ''inf'' then ''Infinity''
      else if r = ''-inf'' then ''-Infinity'' else r)"
| "dumps (JStr s) = json_string s"
| "dumps (JArr xs) = ''['' @ join '', '' (map dumps xs) @ '']''"
| "dumps (JObj kvs) =
     ''{'' @ join '', '' (map (\<lambda>kv. json_string (fst kv) @ '': '' @ dumps (snd kv)) kvs) @ ''}''"

text \<open>
  \<^verbatim>\<open>json.dumps(result, default=str, indent=2)\<close> on the dict of a tool whose rows hold
  text: a row stands at depth two, a value of the dict at depth one.
\<close>

definition dumps_row :: "(string \<times> string) list \<Rightarrow> string" where
  "dumps_row row =
     (if row = [] then ''{}''
      else ''{'' @ nl @ spaces 6
           @ join ('','' @ nl @ spaces 6)
               (map (\<lambda>kv. json_string (fst kv) @ '': '' @ json_string (snd kv)) row)
           @ nl @ spaces 4 @ ''}'')"

fun dumps_value :: "string pyval \<Rightarrow> string" where
  "dumps_value (PBool b) = (if b then ''true'' else ''false'')"
| "dumps_value (PInt i) = string_of_int i"
| "dumps_value (PStr s) = json_string s"
| "dumps_value (PRows rows) =
     (if rows = [] then ''[]''
      else ''['' @ nl @ spaces 4
           @ join ('','' @ nl @ spaces 4) (map dumps_row rows)
           @ nl @ spaces 2 @ '']'')"

definition dumps_result :: "string tool_result \<Rightarrow> string" where
  "dumps_result r =
     (if r = [] then ''{}''
      else ''{'' @ nl @ spaces 2
           @ join ('','' @ nl @ spaces 2)
               (map (\<lambda>kv. json_string (fst kv) @ '': '' @ dumps_value (snd kv)) r)
           @ nl @ ''}'')"

text \<open>
  \<^verbatim>\<open>repr\<close> of a string: in apostrophes, or in quotation marks when the string holds an
  apostrophe and no quotation mark; the delimiter, the backslash and the code points that
  are not printable are escaped.
\<close>

definition repr_char :: "char \<Rightarrow> char \<Rightarrow> string" where
  "repr_char quote c =
     (let n = of_char c :: nat in
      if c = quote \<or> c = CHR 0x5C then [CHR 0x5C, c]
      else if c = CHR 0x09 then [CHR 0x5C, CHR ''t'']
      else if c = CHR 0x0A then [CHR 0x5C, CHR ''n'']
      else if c = CHR 0x0D then [CHR 0x5C, CHR ''r'']
      else if n < 0x20 \<or> (0x7F \<le> n \<and> n \<le> 0xA0) \<or> n = 0xAD then
        [CHR 0x5C, CHR ''x'', hex_digit (n div 16), hex_digit (n mod 16)]
      else [c])"

definition repr_str :: "string \<Rightarrow> string" where
  "repr_str s =
     (let quote = (if CHR 0x27 \<in> set s \<and> CHR 0x22 \<notin> set s then CHR 0x22 else CHR 0x27)
      in [quote] @ concat (map (repr_char quote) s) @ [quote])"

text \<open>\<^verbatim>\<open>repr(v)\<close>, which is \<^verbatim>\<open>str(v)\<close> on every value that is not a string.\<close>

fun repr :: "json \<Rightarrow> string" where
  "repr JNull = ''None''"
| "repr (JBool b) = (if b then ''True'' else ''False'')"
| "repr (JInt i) = string_of_int i"
| "repr (JFloat r) = r"
| "repr (JStr s) = repr_str s"
| "repr (JArr xs) = ''['' @ join '', '' (map repr xs) @ '']''"
| "repr (JObj kvs) =
     ''{'' @ join '', '' (map (\<lambda>kv. repr_str (fst kv) @ '': '' @ repr (snd kv)) kvs) @ ''}''"

text \<open>The message of CPython 3.11 for a float that \<^verbatim>\<open>allow_nan=False\<close> refuses.\<close>

definition OUT_OF_RANGE :: string where
  "OUT_OF_RANGE = ''Out of range float values are not JSON compliant''"

section \<open>Sample environments\<close>

text \<open>
  A database with the tables \<open>a\<close> and \<open>b\<close> on which every driver call returns, and
  one whose server drops the connection while the statement runs: psycopg2 raises from
  \<^verbatim>\<open>execute\<close>, and again from \<^verbatim>\<open>rollback\<close> on the connection that is now closed.
\<close>

definition sample_session :: "string session" where
  "sample_session =
     \<lparr>connect = None, cursor = None, execute = None,
      description = Some [''table_name''], fetchall = Inr [[''a''], [''b'']],
      commit = None, rowcount = 1, rollback = None,
      cursor_close = None, conn_close = None\<rparr>"

definition dropped_session :: "string session" where
  "dropped_session =
     \<lparr>connect = None, cursor = None,
      execute = Some (Exn OtherError ''server closed the connection unexpectedly''),
      description = None, fetchall = Inr [],
      commit = None, rowcount = - 1,
      rollback = Some (Exn OtherError ''connection already closed''),
      cursor_close = None, conn_close = None\<rparr>"

definition sample_env :: "string env" where
  "sample_env =
     \<lparr>db = (\<lambda>q. sample_session), py_str = repr,
      json_dumps = dumps, json_dumps_result = dumps_result,
      render_error = (\<lambda>j. OUT_OF_RANGE)\<rparr>"

definition dropped_env :: "string env" where
  "dropped_env =
     \<lparr>db = (\<lambda>q. dropped_session), py_str = repr,
      json_dumps = dumps, json_dumps_result = dumps_result,
      render_error = (\<lambda>j. OUT_OF_RANGE)\<rparr>"

section \<open>The functions of Python on examples\<close>

text \<open>The right-hand sides are what CPython 3.11 prints.\<close>

lemma upper_examples:
  "upper ''select'' = code_points ''SELECT''"
  "upper [CHR 0xDF, CHR 0xE9, CHR 0xB5, CHR 0xFF, CHR 0xF7, CHR ''1''] = [0x53, 0x53, 0xC9, 0x39C, 0x178, 0xF7, 0x31]"
  by (simp_all add: upper_def upper_char_def code_points_def)

lemma strip_example:
  "strip (CHR 0xA0 # ''  a b'' @ [CHR 0x85, CHR 0x0A]) = ''a b''"
  by (simp add: strip_def is_space_def)

lemma dumps_example:
  "dumps (JObj [(''a'', JArr [JFloat ''1.5'', JFloat ''nan'', JFloat ''-inf'',
                              JStr [CHR 0x22, CHR 0x5C, CHR 0x0A, CHR 0x7F, CHR 0xE9, CHR 0x09],
                              JNull, JBool True, JObj [], JArr [], JInt (- 12)])])
   = ''{\"a\": [1.5, NaN, -Infinity, \"'' @ [CHR 0x5C] @ ''\"'' @ [CHR 0x5C] @ [CHR 0x5C] @ [CHR 0x5C] @ ''n'' @ [CHR 0x5C] @ ''u007f'' @ [CHR 0x5C] @ ''u00e9'' @ [CHR 0x5C] @ ''t\", null, true, {}, [], -12]}''"
  by (simp add: json_string_def json_char_def hex_digit_def string_of_int_def
      string_of_nat.simps)

lemma repr_example:
  "repr (JArr [JStr (''a'' @ [CHR 0x27] @ ''b''), JStr ''a\"b'', JStr (''a'' @ [CHR 0x27] @ ''\"b''),
               JStr [CHR 0x5C, CHR 0x0A, CHR 0x00, CHR 0x7F, CHR 0x85, CHR 0xA0, CHR 0xAD, CHR 0xE9],
               JNull, JBool False, JFloat ''1.5'', JObj [(''k'', JArr [JInt 1])]])
   = ''[\"a'' @ [CHR 0x27] @ ''b\", '' @ [CHR 0x27] @ ''a\"b'' @ [CHR 0x27] @ '', '' @ [CHR 0x27] @ ''a'' @ [CHR 0x5C] @ [CHR 0x27] @ ''\"b'' @ [CHR 0x27] @ '', '' @ [CHR 0x27] @ [CHR 0x5C] @ [CHR 0x5C] @ [CHR 0x5C] @ ''n'' @ [CHR 0x5C] @ ''x00'' @ [CHR 0x5C] @ ''x7f'' @ [CHR 0x5C] @ ''x85'' @ [CHR 0x5C] @ ''xa0'' @ [CHR 0x5C] @ ''xad'' @ [CHR 0xE9] @ [CHR 0x27] @ '', None, False, 1.5, {'' @ [CHR 0x27] @ ''k'' @ [CHR 0x27] @ '': [1]}]''"
  by (simp add: repr_str_def repr_char_def Let_def hex_digit_def string_of_int_def
      string_of_nat.simps)

lemma dumps_result_examples:
  "dumps_result [(''success'', PBool True),
                 (''data'', PRows [[(''table_name'', ''a'')], [(''table_name'', ''b'')]]),
                 (''row_count'', PInt 2)]
   = ''{\<newline>  \"success\": true,\<newline>  \"data\": [\<newline>    {\<newline>      \"table_name\": \"a\"\<newline>    },\<newline>    {\<newline>      \"table_name\": \"b\"\<newline>    }\<newline>  ],\<newline>  \"row_count\": 2\<newline>}''"
  "dumps_result [(''success'', PBool True),
                 (''message'', PStr ''Query executed successfully. Rows affected: 1''),
                 (''affected_rows'', PInt 1)]
   = ''{\<newline>  \"success\": true,\<newline>  \"message\": \"Query executed successfully. Rows affected: 1\",\<newline>  \"affected_rows\": 1\<newline>}''"
  "dumps_result [(''success'', PBool True), (''data'', PRows []), (''row_count'', PInt 0)]
   = ''{\<newline>  \"success\": true,\<newline>  \"data\": [],\<newline>  \"row_count\": 0\<newline>}''"
  by (simp_all add: dumps_result_def dumps_row_def json_string_def json_char_def nl_def
      spaces_def eval_nat_numeral string_of_int_def string_of_nat.simps)

section \<open>Letters and keywords\<close>

lemma upper_char_step:
  fixes k :: nat
  assumes "0x41 \<le> k" and "k \<le> 0x5A" and "k = 0x53 \<Longrightarrow> ks \<noteq> [] \<and> hd ks \<noteq> 0x53"
  shows "take (Suc (length ks)) (upper_char c @ rest) = k # ks
         \<longleftrightarrow> ((of_char c :: nat) = k \<or> (of_char c :: nat) = k + 0x20) \<and> take (length ks) rest = ks"
  using assms by (cases ks) (auto simp add: upper_char_def Let_def)

lemma begins_with_letters_upper:
  assumes "plain_keyword kw"
  shows "take (length kw) (upper s) = code_points (map fst kw) \<longleftrightarrow> begins_with_letters kw s"
  using assms
proof (induction kw arbitrary: s)
  case Nil
  show ?case by (simp add: code_points_def)
next
  case (Cons p kw)
  show ?case
  proof (cases s)
    case Nil
    then show ?thesis by (simp add: upper_def code_points_def)
  next
    case (Cons c cs)
    let ?k = "of_char (fst p) :: nat"
    let ?ks = "code_points (map fst kw)"
    from Cons.prems have pk: "plain_keyword kw" by simp
    have s: "?k = 0x53 \<Longrightarrow> ?ks \<noteq> [] \<and> hd ?ks \<noteq> 0x53"
    proof -
      assume "?k = 0x53"
      then have "?k = of_char CHR ''S''" by simp
      then have "fst p = CHR ''S''" by (simp only: of_char_eq_iff)
      with Cons.prems have "kw \<noteq> []" and "fst (hd kw) \<noteq> CHR ''S''" by simp_all
      then have "?ks \<noteq> []" and "of_char (fst (hd kw)) \<noteq> (of_char CHR ''S'' :: nat)"
        by (simp_all add: code_points_def del: of_char_Char)
      then show ?thesis using \<open>kw \<noteq> []\<close> by (simp add: code_points_def hd_map)
    qed
    have len: "length ?ks = length kw" by (simp add: code_points_def)
    have "take (Suc (length ?ks)) (upper_char c @ upper cs) = ?k # ?ks
          \<longleftrightarrow> ((of_char c :: nat) = ?k \<or> (of_char c :: nat) = ?k + 0x20) \<and> take (length ?ks) (upper cs) = ?ks"
      using Cons.prems s by (intro upper_char_step) simp_all
    moreover have "(of_char c :: nat) = ?k \<longleftrightarrow> c = fst p" by simp
    moreover have "(of_char c :: nat) = ?k + 0x20 \<longleftrightarrow> c = snd p"
    proof -
      from Cons.prems have "(of_char (snd p) :: nat) = ?k + 0x20" by simp
      then have "(of_char c :: nat) = ?k + 0x20 \<longleftrightarrow> (of_char c :: nat) = of_char (snd p)" by simp
      then show ?thesis by (simp only: of_char_eq_iff)
    qed
    moreover have "take (length kw) (upper cs) = ?ks \<longleftrightarrow> begins_with_letters kw cs"
      using Cons.IH [OF pk] .
    ultimately show ?thesis
      using Cons len by (simp add: upper_def code_points_def)
  qed
qed

lemma strip_trimmed:
  "strip q = trimmed [CHR 0x09, CHR 0x0A, CHR 0x0B, CHR 0x0C, CHR 0x0D,
                      CHR 0x1C, CHR 0x1D, CHR 0x1E, CHR 0x1F, CHR 0x20, CHR 0x85, CHR 0xA0] q"
proof -
  have "is_space = (\<lambda>c. c \<in> set [CHR 0x09, CHR 0x0A, CHR 0x0B, CHR 0x0C, CHR 0x0D,
                      CHR 0x1C, CHR 0x1D, CHR 0x1E, CHR 0x1F, CHR 0x20, CHR 0x85, CHR 0xA0])"
    by (rule ext) (simp only: is_space_def)
  then show ?thesis by (simp only: strip_def trimmed_def)
qed

lemma startswith_keyword:
  "startswith (upper b) (code_points ''SELECT'') \<longleftrightarrow> begins_with_keyword b (''SELECT'', ''select'')"
  "startswith (upper b) (code_points ''WITH'') \<longleftrightarrow> begins_with_keyword b (''WITH'', ''with'')"
  "startswith (upper b) (code_points ''SHOW'') \<longleftrightarrow> begins_with_keyword b (''SHOW'', ''show'')"
  "startswith (upper b) (code_points ''DESCRIBE'') \<longleftrightarrow> begins_with_keyword b (''DESCRIBE'', ''describe'')"
  using begins_with_letters_upper [of "zip ''SELECT'' ''select''" b]
    begins_with_letters_upper [of "zip ''WITH'' ''with''" b]
    begins_with_letters_upper [of "zip ''SHOW'' ''show''" b]
    begins_with_letters_upper [of "zip ''DESCRIBE'' ''describe''" b]
  by (simp_all add: startswith_def begins_with_keyword_def code_points_def)

lemma read_like_spec:
  "read_like q \<longleftrightarrow>
     list_ex (begins_with_keyword
                (trimmed [CHR 0x09, CHR 0x0A, CHR 0x0B, CHR 0x0C, CHR 0x0D,
                          CHR 0x1C, CHR 0x1D, CHR 0x1E, CHR 0x1F, CHR 0x20, CHR 0x85, CHR 0xA0] q))
       [(''SELECT'', ''select''), (''WITH'', ''with''), (''SHOW'', ''show''),
        (''DESCRIBE'', ''describe'')]"
  by (simp add: read_like_def startswith_any_def READ_KEYWORDS_def startswith_keyword
      strip_trimmed [symmetric])

section \<open>Runs of execute_query\<close>

lemma try_body_success_read:
  assumes "connect s = None" "cursor s = None" "execute s = None" "read_like q" "fetchall s = Inr rows"
  shows "try_body s (JStr q) =
     ([Connect, Cursor, Execute (JStr q), Fetchall],
      Inr (read_success (map (\<lambda>row. dict (zip (case description s of None \<Rightarrow> [] | Some d \<Rightarrow> d) row)) rows)))"
  using assms by (simp add: try_body_def split: option.splits)

lemma try_body_success_write:
  assumes "connect s = None" "cursor s = None" "execute s = None" "\<not> read_like q" "commit s = None"
  shows "try_body s (JStr q) =
     ([Connect, Cursor, Execute (JStr q), Commit], Inr (write_success (rowcount s)))"
  using assms by (simp add: try_body_def)

lemma execute_query_returned:
  assumes "try_body s query = (t, Inr r)" "connect s = None" "cursor s = None"
    "cursor_close s = None" "conn_close s = None"
  shows "execute_query s query = (t @ [CursorClose, ConnClose], Inr r)"
  using assms by (simp add: execute_query_def except_clause_def finally_clause_def)

text \<open>
  C6. On a session whose calls return, \<^verbatim>\<open>execute_query\<close> treats a statement as
  read-like exactly when the statement, Python's white space at its two ends removed,
  begins with one of the keywords SELECT, WITH, SHOW, DESCRIBE, each letter in either
  case. A read-like statement whose rows are fetched returns \<open>success: True\<close>, the rows
  as \<open>data\<close> and their number as \<open>row_count\<close>, with no commit; any other statement
  is committed and returns \<open>success: True\<close>, the message with the driver's row count,
  and that count as \<open>affected_rows\<close>.
\<close>

theorem execute_query_classifies:
  assumes "connect s = None" and "cursor s = None" and "execute s = None"
      and "cursor_close s = None" and "conn_close s = None"
      and "keywords = [(''SELECT'', ''select''), (''WITH'', ''with''), (''SHOW'', ''show''),
                       (''DESCRIBE'', ''describe'')]"
      and "white = [CHR 0x09, CHR 0x0A, CHR 0x0B, CHR 0x0C, CHR 0x0D,
                    CHR 0x1C, CHR 0x1D, CHR 0x1E, CHR 0x1F, CHR 0x20, CHR 0x85, CHR 0xA0]"
      and "read = list_ex (begins_with_keyword (trimmed white q)) keywords"
  shows "(read \<and> fetchall s = Inr rows \<longrightarrow>
            execute_query s (JStr q) =
              ([Connect, Cursor, Execute (JStr q), Fetchall, CursorClose, ConnClose],
               Inr [(''success'', PBool True),
                    (''data'', PRows (map (\<lambda>row. dict (zip (case description s of None \<Rightarrow> [] | Some d \<Rightarrow> d) row)) rows)),
                    (''row_count'', PInt (int (length rows)))]))
       \<and> (\<not> read \<and> commit s = None \<longrightarrow>
            execute_query s (JStr q) =
              ([Connect, Cursor, Execute (JStr q), Commit, CursorClose, ConnClose],
               Inr [(''success'', PBool True),
                    (''message'', PStr (''Query executed successfully. Rows affected: '' @ string_of_int (rowcount s))),
                    (''affected_rows'', PInt (rowcount s))]))"
proof -
  from assms(6-8) have r: "read = read_like q"
    by (simp only: read_like_spec)
  show ?thesis
  proof (intro conjI impI)
    assume h: "read \<and> fetchall s = Inr rows"
    with r have "read_like q" by simp
    from try_body_success_read [OF assms(1-3) this] h
    show "execute_query s (JStr q) =
              ([Connect, Cursor, Execute (JStr q), Fetchall, CursorClose, ConnClose],
               Inr [(''success'', PBool True),
                    (''data'', PRows (map (\<lambda>row. dict (zip (case description s of None \<Rightarrow> [] | Some d \<Rightarrow> d) row)) rows)),
                    (''row_count'', PInt (int (length rows)))])"
      using assms(1-5) by (simp add: execute_query_returned read_success_def)
  next
    assume h: "\<not> read \<and> commit s = None"
    with r have "\<not> read_like q" by simp
    from try_body_success_write [OF assms(1-3) this] h
    show "execute_query s (JStr q) =
              ([Connect, Cursor, Execute (JStr q), Commit, CursorClose, ConnClose],
               Inr [(''success'', PBool True),
                    (''message'', PStr (''Query executed successfully. Rows affected: '' @ string_of_int (rowcount s))),
                    (''affected_rows'', PInt (rowcount s))])"
      using assms(1-5) by (simp add: execute_query_returned write_success_def)
  qed
qed

lemma string_of_int_1: "string_of_int 1 = ''1''"
  by (simp add: string_of_int_def string_of_nat.simps)

theorem execute_query_classifies_witness:
  "execute_query sample_session (JStr ''  select 1'') =
     ([Connect, Cursor, Execute (JStr ''  select 1''), Fetchall, CursorClose, ConnClose],
      Inr [(''success'', PBool True),
           (''data'', PRows [[(''table_name'', ''a'')], [(''table_name'', ''b'')]]),
           (''row_count'', PInt 2)])
   \<and> execute_query sample_session (JStr (CHR 0xA0 # ''With t as (select 1) select * from t'')) =
     ([Connect, Cursor, Execute (JStr (CHR 0xA0 # ''With t as (select 1) select * from t'')),
       Fetchall, CursorClose, ConnClose],
      Inr [(''success'', PBool True),
           (''data'', PRows [[(''table_name'', ''a'')], [(''table_name'', ''b'')]]),
           (''row_count'', PInt 2)])
   \<and> execute_query sample_session (JStr ''INSERT INTO t VALUES (1)'') =
     ([Connect, Cursor, Execute (JStr ''INSERT INTO t VALUES (1)''), Commit, CursorClose, ConnClose],
      Inr [(''success'', PBool True),
           (''message'', PStr ''Query executed successfully. Rows affected: 1''),
           (''affected_rows'', PInt 1)])"
  using
    execute_query_classifies [of sample_session _ _ _ "''  select 1''" "[[''a''], [''b'']]", OF _ _ _ _ _ refl refl refl]
    execute_query_classifies [of sample_session _ _ _ "CHR 0xA0 # ''With t as (select 1) select * from t''" "[[''a''], [''b'']]", OF _ _ _ _ _ refl refl refl]
    execute_query_classifies [of sample_session _ _ _ "''INSERT INTO t VALUES (1)''" "[]", OF _ _ _ _ _ refl refl refl]
  by (simp add: sample_session_def dict_def string_of_int_1 trimmed_def begins_with_keyword_def)

section \<open>Reading the body\<close>

lemma py_get_JObj:
  "py_get (JObj kvs) key dflt = Inr (case map_of kvs key of None \<Rightarrow> dflt | Some x \<Rightarrow> x)"
  by (simp add: py_get_def split: option.splits)

section \<open>Faults of the driver\<close>

lemma execute_query_absorbs:
  assumes "snd (try_body s q) = Inl e"
      and "rollback s = None" and "cursor_close s = None" and "conn_close s = None"
  shows "snd (execute_query s q) = Inr (failure (str_exn e))"
  using assms
  by (cases "try_body s q")
     (auto simp add: execute_query_def except_clause_def finally_clause_def)

text \<open>
  C4. When the server drops the connection while the statement runs, the rollback made
  inside the exception handler raises in its turn; that exception leaves
  \<^verbatim>\<open>execute_query\<close>, and the RPC call is answered by the failure with code -32603
  instead of a result that carries \<open>success: False\<close>. (When the rollback and the two
  \<^verbatim>\<open>close\<close> calls return, the fault is absorbed, as \<open>execute_query_absorbs\<close>
  states.)
\<close>

theorem rollback_fault_escapes:
  "execute_query dropped_session (JStr ''SELECT 1'') =
     ([Connect, Cursor, Execute (JStr ''SELECT 1''), Rollback, CursorClose, ConnClose],
      Inl (Exn OtherError ''connection already closed''))
   \<and> mcp_endpoint dropped_env
     \<lparr>req_method = POST, accept = Some ''application/json'',
      request_json = Inr (JObj [(''jsonrpc'', JStr ''2.0''), (''id'', JInt 1),
        (''method'', JStr ''tools/call''),
        (''params'', JObj [(''name'', JStr ''postgres_query''),
                           (''arguments'', JObj [(''query'', JStr ''SELECT 1'')])])])\<rparr>
   = ([Connect, Cursor, Execute (JStr ''SELECT 1''), Rollback, CursorClose, ConnClose],
      JSONResponse
        (JObj [(''jsonrpc'', JStr ''2.0''),
               (''error'', JObj [(''code'', JInt (- 32603)),
                                 (''message'', JStr ''connection already closed'')])])
        500)"
proof -
  have e: "execute_query dropped_session (JStr ''SELECT 1'') =
     ([Connect, Cursor, Execute (JStr ''SELECT 1''), Rollback, CursorClose, ConnClose],
      Inl (Exn OtherError ''connection already closed''))"
    by (simp add: execute_query_def try_body_def except_clause_def finally_clause_def
        dropped_session_def)
  then show ?thesis
    by (simp add: mcp_endpoint_def rpc_http_def py_get_JObj startswith_def call_tool_http_def
        call_tool_def run_query_def dropped_env_def error_without_id_def)
qed

section \<open>The shapes of a tool result\<close>

lemma try_body_shape:
  assumes "snd (try_body s q) = Inr r"
  shows "(\<exists>x. r = read_success x) \<or> (\<exists>n. r = write_success n)"
  using assms
  by (auto simp add: try_body_def Let_def split: option.splits json.splits if_splits sum.splits)

lemma except_clause_shape:
  assumes "snd (except_clause s x) = Inr r"
  shows "snd x = Inr r \<or> (\<exists>m. r = failure m)"
  using assms
  by (cases x) (auto simp add: except_clause_def split: sum.splits option.splits if_splits)

lemma finally_clause_returned:
  assumes "snd (finally_clause s x) = Inr r"
  shows "snd x = Inr r"
  using assms
  by (cases x) (auto simp add: finally_clause_def split: option.splits if_splits)

lemma execute_query_shape:
  assumes "snd (execute_query s q) = Inr r"
  shows "(\<exists>x. r = read_success x) \<or> (\<exists>n. r = write_success n) \<or> (\<exists>m. r = failure m)"
proof -
  from assms have "snd (except_clause s (try_body s q)) = Inr r"
    unfolding execute_query_def by (rule finally_clause_returned)
  then have "snd (try_body s q) = Inr r \<or> (\<exists>m. r = failure m)"
    by (rule except_clause_shape)
  then show ?thesis
    using try_body_shape [of s q r] by blast
qed

lemma call_tool_shape:
  assumes "snd (call_tool d env params) = Inr r"
  shows "(\<exists>x. r = read_success x) \<or> (\<exists>n. r = write_success n) \<or> (\<exists>m. r = failure m)"
  using assms
  by (auto simp add: call_tool_def run_query_def split: sum.splits if_splits
      dest: execute_query_shape)

lemma shape_keys:
  assumes "(\<exists>x. r = read_success x) \<or> (\<exists>n. r = write_success n) \<or> (\<exists>m. r = failure m)"
  shows "map fst r \<in> {[''success'', ''data'', ''row_count''],
                        [''success'', ''message'', ''affected_rows''],
                        [''success'', ''error'']}"
  using assms by (auto simp add: read_success_def write_success_def failure_def)

text \<open>
  C9. A dict returned by \<^verbatim>\<open>execute_query\<close>, or by the tool dispatch of either
  transport (the branch of an unknown tool included), has the keys of exactly one of
  the three shapes; when it has the key \<open>error\<close> it has neither \<open>data\<close> nor
  \<open>message\<close>.
\<close>

theorem tool_result_one_shape:
  assumes "snd (execute_query s q) = Inr r \<or> snd (call_tool_sse env params) = Inr r
           \<or> snd (call_tool_http env params) = Inr r"
  shows "map fst r \<in> {[''success'', ''data'', ''row_count''],
                        [''success'', ''message'', ''affected_rows''],
                        [''success'', ''error'']}
         \<and> (has_key r ''error'' \<longrightarrow> \<not> has_key r ''data'' \<and> \<not> has_key r ''message'')"
proof -
  from assms have "(\<exists>x. r = read_success x) \<or> (\<exists>n. r = write_success n) \<or> (\<exists>m. r = failure m)"
    using execute_query_shape [of s q r] call_tool_shape [of describe_sql_sse env params r]
      call_tool_shape [of describe_sql_http env params r]
    by (auto simp add: call_tool_sse_def call_tool_http_def)
  from shape_keys [OF this] show ?thesis
    by (auto simp add: has_key_def)
qed

theorem tool_result_one_shape_witness:
  "snd (call_tool_sse sample_env (JObj [(''name'', JStr ''drop_everything'')]))
     = Inr [(''success'', PBool False), (''error'', PStr ''Unknown tool: drop_everything'')]
   \<and> has_key [(''success'', PBool False), (''error'', PStr ''Unknown tool: drop_everything'') :: string \<times> string pyval] ''error''
   \<and> \<not> has_key [(''success'', PBool False), (''error'', PStr ''Unknown tool: drop_everything'') :: string \<times> string pyval] ''data''
   \<and> \<not> has_key [(''success'', PBool False), (''error'', PStr ''Unknown tool: drop_everything'') :: string \<times> string pyval] ''message''"
proof -
  have c: "snd (call_tool_sse sample_env (JObj [(''name'', JStr ''drop_everything'')]))
     = Inr [(''success'', PBool False), (''error'', PStr ''Unknown tool: drop_everything'')]"
    by (simp add: call_tool_sse_def call_tool_def py_get_JObj failure_def format_value_def)
  have k: "has_key [(''success'', PBool False), (''error'', PStr ''Unknown tool: drop_everything'') :: string \<times> string pyval] ''error''"
    by (simp add: has_key_def)
  from tool_result_one_shape [of _ _ "[(''success'', PBool False), (''error'', PStr ''Unknown tool: drop_everything'')]" sample_env "JObj [(''name'', JStr ''drop_everything'')]"] c k
  show ?thesis by simp
qed

section \<open>Unknown methods and malformed bodies\<close>

lemma sse_method_not_found:
  assumes "py_get (JObj body) ''method'' (JStr []) = Inr method"
      and "method \<notin> {JStr ''initialize'', JStr ''tools/list'', JStr ''resources/list'',
                       JStr ''prompts/list'', JStr ''tools/call''}"
      and "is_substring ''text/event-stream'' a"
  shows "mcp_endpoint env \<lparr>req_method = POST, accept = Some a, request_json = Inr (JObj body)\<rparr> =
           ([], StreamingResponse
                  [Yield (sse_frame env
                     (JObj [(''jsonrpc'', JStr ''2.0''),
                            (''id'', case map_of body ''id'' of None \<Rightarrow> JInt 1 | Some i \<Rightarrow> i),
                            (''error'', JObj [(''code'', JInt (- 32601)),
                               (''message'', JStr (''Method not found: '' @ format_value env method))])]))]
                  ''text/event-stream'' SSE_HEADERS)"
  using assms
  by (simp add: mcp_endpoint_def sse_generator_def rpc_sse_def py_get_JObj method_not_found_def)

lemma sse_parse_error:
  assumes "is_substring ''text/event-stream'' a"
  shows "mcp_endpoint env
           \<lparr>req_method = POST, accept = Some a, request_json = Inl (Exn JSONDecodeError msg)\<rparr> =
           ([], StreamingResponse
                  [Yield (sse_frame env
                     (JObj [(''jsonrpc'', JStr ''2.0''),
                            (''error'', JObj [(''code'', JInt (- 32700)),
                               (''message'', JStr ''Parse error: Invalid JSON'')])]))]
                  ''text/event-stream'' SSE_HEADERS)"
  using assms
  by (simp add: mcp_endpoint_def sse_generator_def error_without_id_def)

text \<open>
  C1. On the unary transport the chain of branches has no final \<^verbatim>\<open>else\<close>: a request
  whose method is none of the five known ones makes the endpoint end without a
  \<^verbatim>\<open>return\<close>, so that no failure with code -32601 is returned. (The streamed
  transport answers it as \<open>sse_method_not_found\<close> states.)
\<close>

theorem unary_unknown_method_returns_nothing:
  "mcp_endpoint env
     \<lparr>req_method = POST, accept = Some ''application/json'',
      request_json = Inr (JObj [(''jsonrpc'', JStr ''2.0''), (''id'', JInt 1),
                               (''method'', JStr ''nonexistent'')])\<rparr>
   = ([], NoneReturned)"
  by (simp add: mcp_endpoint_def rpc_http_def py_get_JObj startswith_def)

text \<open>
  C2. On the unary transport a body that is not JSON is caught by the handler of every
  \<^verbatim>\<open>Exception\<close>: the response has status 500, code -32603 and the decoder's own
  message, not code -32700 and \<open>Parse error: Invalid JSON\<close>. (The streamed transport
  answers it as \<open>sse_parse_error\<close> states.)
\<close>

theorem unary_invalid_json_is_internal_error:
  "mcp_endpoint env
     \<lparr>req_method = POST, accept = Some ''application/json'',
      request_json = Inl (Exn JSONDecodeError ''Expecting value: line 1 column 1 (char 0)'')\<rparr>
   = ([], JSONResponse
            (JObj [(''jsonrpc'', JStr ''2.0''),
                   (''error'', JObj [(''code'', JInt (- 32603)),
                                     (''message'', JStr ''Expecting value: line 1 column 1 (char 0)'')])])
            500)"
  by (simp add: mcp_endpoint_def startswith_def error_without_id_def)
text \<open>
  C10. A POST request served as a stream whose body is a JSON object without the key
  \<open>method\<close> is answered by one frame, \<open>data: \<close> followed by the serialised failure
  with code -32601 and the message \<open>Method not found: \<close> with nothing after it, with
  the id of the request or 1, and two line feeds. It is not the parse error -32700, and
  no exception leaves the router.
\<close>

theorem missing_method_is_method_not_found:
  assumes "map_of body ''method'' = None"
      and "is_substring ''text/event-stream'' a"
  shows "mcp_endpoint env \<lparr>req_method = POST, accept = Some a, request_json = Inr (JObj body)\<rparr> =
           ([], StreamingResponse
                  [Yield (''data: '' @ json_dumps env
                     (JObj [(''jsonrpc'', JStr ''2.0''),
                            (''id'', case map_of body ''id'' of None \<Rightarrow> JInt 1 | Some i \<Rightarrow> i),
                            (''error'', JObj [(''code'', JInt (- 32601)),
                                             (''message'', JStr ''Method not found: '')])])
                     @ ''\<newline>\<newline>'')]
                  ''text/event-stream''
                  [(''Cache-Control'', ''no-cache''), (''Connection'', ''keep-alive''),
                   (''X-Accel-Buffering'', ''no''), (''Access-Control-Allow-Origin'', ''*'')])"
  using assms
  by (simp add: mcp_endpoint_def sse_generator_def rpc_sse_def py_get_JObj
      method_not_found_def format_value_def sse_frame_def nl_def SSE_HEADERS_def)

theorem missing_method_is_method_not_found_witness:
  "mcp_endpoint sample_env
     \<lparr>req_method = POST, accept = Some ''application/json, text/event-stream'',
      request_json = Inr (JObj [(''jsonrpc'', JStr ''2.0''), (''id'', JInt 7)])\<rparr> =
           ([], StreamingResponse
                  [Yield ''data: {\"jsonrpc\": \"2.0\", \"id\": 7, \"error\": {\"code\": -32601, \"message\": \"Method not found: \"}}\<newline>\<newline>'']
                  ''text/event-stream''
                  [(''Cache-Control'', ''no-cache''), (''Connection'', ''keep-alive''),
                   (''X-Accel-Buffering'', ''no''), (''Access-Control-Allow-Origin'', ''*'')])"
  using missing_method_is_method_not_found
    [of "[(''jsonrpc'', JStr ''2.0''), (''id'', JInt 7)]" "''application/json, text/event-stream''" sample_env]
  by (simp add: startswith_def sample_env_def json_string_def json_char_def
      string_of_int_def string_of_nat.simps)

section \<open>Tool calls\<close>

lemma execute_query_sample_read:
  "read_like q \<Longrightarrow> execute_query sample_session (JStr q) =
     ([Connect, Cursor, Execute (JStr q), Fetchall, CursorClose, ConnClose],
      Inr (read_success [[(''table_name'', ''a'')], [(''table_name'', ''b'')]]))"
  by (simp add: execute_query_def try_body_def except_clause_def finally_clause_def
      sample_session_def dict_def)

text \<open>
  C3. On the unary transport the statement sent for \<open>postgres_describe_table\<close> selects
  the column name, the data type and the nullability only: \<open>column_default\<close> is not
  selected. (The streamed transport sends the statement of \<open>describe_sql_sse\<close>, which
  selects it.)
\<close>

theorem unary_describe_table_omits_default:
  "fst (mcp_endpoint sample_env
     \<lparr>req_method = POST, accept = Some ''application/json'',
      request_json = Inr (JObj [(''jsonrpc'', JStr ''2.0''), (''id'', JInt 1),
        (''method'', JStr ''tools/call''),
        (''params'', JObj [(''name'', JStr ''postgres_describe_table''),
                           (''arguments'', JObj [(''table_name'', JStr ''employees'')])])])\<rparr>)
   = [Connect, Cursor,
      Execute (JStr ''SELECT column_name, data_type, is_nullable FROM information_schema.columns WHERE table_name = 'employees' ORDER BY ordinal_position''),
      Fetchall, CursorClose, ConnClose]"
proof -
  have "read_like (describe_sql_http ''employees'')"
    by (simp add: read_like_spec describe_sql_http_def trimmed_def begins_with_keyword_def)
  from execute_query_sample_read [OF this] show ?thesis
    by (simp add: mcp_endpoint_def rpc_http_def py_get_JObj startswith_def call_tool_http_def
        call_tool_def run_query_def sample_env_def format_value_def describe_sql_http_def
        tool_envelope_def success_envelope_def)
qed




section \<open>The id of a response\<close>











section \<open>The stream of a GET request\<close>

text \<open>
  C8. Every GET request is answered by a stream of one frame with the server's
  capabilities (protocol version, the capability \<open>tools\<close>, name and version of the
  server) in an envelope that has no \<open>id\<close> member, then three times a pause of one
  second followed by the comment frame \<open>: ping\<close> with two line feeds; then the stream
  ends. No driver call is made.
\<close>

theorem bare_get_stream:
  assumes "req_method request = GET"
  shows "mcp_endpoint env request =
           ([], StreamingResponse
                  [Yield (''data: '' @ json_dumps env
                     (JObj [(''jsonrpc'', JStr ''2.0''),
                            (''result'',
                             JObj [(''protocolVersion'', JStr ''2024-11-05''),
                                   (''capabilities'', JObj [(''tools'', JObj [])]),
                                   (''serverInfo'',
                                    JObj [(''name'', JStr ''PostgreSQL MCP Server''),
                                          (''version'', JStr ''1.0.0'')])])])
                     @ ''\<newline>\<newline>''),
                   Sleep 1, Yield '': ping\<newline>\<newline>'',
                   Sleep 1, Yield '': ping\<newline>\<newline>'',
                   Sleep 1, Yield '': ping\<newline>\<newline>'']
                  ''text/event-stream''
                  [(''Cache-Control'', ''no-cache''), (''Connection'', ''keep-alive''),
                   (''X-Accel-Buffering'', ''no''), (''Access-Control-Allow-Origin'', ''*'')])"
  using assms
  by (simp add: mcp_endpoint_def sse_generator_def numeral_3_eq_3 PING_def nl_def
      CAPABILITIES_def initialize_result_def SERVER_INFO_def sse_frame_def SSE_HEADERS_def)

theorem bare_get_stream_witness:
  "mcp_endpoint sample_env
     \<lparr>req_method = GET, accept = None,
      request_json = Inl (Exn JSONDecodeError ''Expecting value: line 1 column 1 (char 0)'')\<rparr> =
           ([], StreamingResponse
                  [Yield (''data: {\"jsonrpc\": \"2.0\", \"result\": {\"protocolVersion\": \"2024-11-05\", \"capabilities\": {\"tools\": {}}, \"serverInfo\": {\"name\": \"PostgreSQL MCP Server\", \"version\": \"1.0.0\"}}}\<newline>\<newline>''),
                   Sleep 1, Yield '': ping\<newline>\<newline>'',
                   Sleep 1, Yield '': ping\<newline>\<newline>'',
                   Sleep 1, Yield '': ping\<newline>\<newline>'']
                  ''text/event-stream''
                  [(''Cache-Control'', ''no-cache''), (''Connection'', ''keep-alive''),
                   (''X-Accel-Buffering'', ''no''), (''Access-Control-Allow-Origin'', ''*'')])"
  using bare_get_stream
    [of "\<lparr>req_method = GET, accept = None,
      request_json = Inl (Exn JSONDecodeError ''Expecting value: line 1 column 1 (char 0)'')\<rparr>"
        sample_env]
  by (simp add: sample_env_def json_string_def json_char_def)
end
